theory Spec2Isabelle
  imports Complex_Main "HOL-Library.AList"
begin

section \<open>Values, native ids and documents\<close>

text \<open>
  The service (\<^verbatim>\<open>main.py\<close>) moves documents between a document store and its HTTP
  surface. A native id is the store's \<^verbatim>\<open>ObjectId\<close>: twelve bytes, here the number they
  spell; \<^verbatim>\<open>str(oid)\<close> is its 24-digit lower-case hexadecimal text (the last 24
  hexadecimal digits of the number).
\<close>

datatype objectid = ObjectId nat

definition hex_digits :: string where
  "hex_digits = ''0123456789abcdef''"

fun hex_of_nat :: "nat \<Rightarrow> nat \<Rightarrow> string" where
  "hex_of_nat 0 n = []"
| "hex_of_nat (Suc k) n = hex_of_nat k (n div 16) @ [hex_digits ! (n mod 16)]"

fun str_oid :: "objectid \<Rightarrow> string" where
  "str_oid (ObjectId n) = hex_of_nat 24 n"

text \<open>
  A document is a Python \<^verbatim>\<open>dict\<close> with string keys: an association list in insertion
  order. \<^const>\<open>map_of\<close> is \<^verbatim>\<open>d.get(k)\<close>, \<^const>\<open>AList.update\<close> is \<^verbatim>\<open>d[k] = v\<close> (an existing
  key keeps its place, a new key goes last) and \<^const>\<open>AList.delete\<close> is \<^verbatim>\<open>del d[k]\<close>.
\<close>

datatype pyval =
    VNone
  | VBool bool
  | VInt int
  | VFloat real
  | VStr string
  | VObjectId objectid
  | VList "pyval list"
  | VDict "(string \<times> pyval) list"

type_synonym doc = "(string \<times> pyval) list"

section \<open>Utils: \<^verbatim>\<open>serialize_doc\<close>\<close>

text \<open>
  \<^verbatim>\<open>
  def serialize_doc(doc: dict) -> dict:
      if not doc:
          return doc
      d = {**doc}
      _id = d.get("_id")
      if isinstance(_id, ObjectId):
          d["id"] = str(_id)
          del d["_id"]
      return d
  \<close>
  The value-level model: what the returned dictionary holds (\<open>raw_id\<close> is the local \<^verbatim>\<open>_id\<close>).
\<close>

definition serialize_doc :: "doc \<Rightarrow> doc" where
  "serialize_doc doc =
     (if doc = [] then doc
      else
        let d = doc;
            raw_id = map_of d ''_id''
        in case raw_id of
             Some (VObjectId oid) \<Rightarrow>
               AList.delete ''_id'' (AList.update ''id'' (VStr (str_oid oid)) d)
           | _ \<Rightarrow> d)"

text \<open>
  The same function over an explicit heap of dictionaries, so that aliasing and in-place
  updates are visible: a reference is an index into the heap, \<^verbatim>\<open>{**doc}\<close> allocates a
  fresh dictionary at the end of it, \<^verbatim>\<open>d["id"] = ...\<close> and \<^verbatim>\<open>del d["_id"]\<close> overwrite
  the cell \<open>d\<close> refers to, and \<^verbatim>\<open>return doc\<close> hands back the argument's own reference.
\<close>

type_synonym ref = nat
type_synonym heap = "doc list"

definition alloc :: "heap \<Rightarrow> doc \<Rightarrow> heap \<times> ref" where
  "alloc h x = (h @ [x], length h)"

definition setitem :: "heap \<Rightarrow> ref \<Rightarrow> string \<Rightarrow> pyval \<Rightarrow> heap" where
  "setitem h r k v = h[r := AList.update k v (h ! r)]"

definition delitem :: "heap \<Rightarrow> ref \<Rightarrow> string \<Rightarrow> heap" where
  "delitem h r k = h[r := AList.delete k (h ! r)]"

definition serialize_doc_heap :: "heap \<Rightarrow> ref \<Rightarrow> heap \<times> ref" where
  "serialize_doc_heap h doc =
     (if h ! doc = [] then (h, doc)
      else
        let (h1, d) = alloc h (h ! doc);
            raw_id = map_of (h1 ! d) ''_id''
        in case raw_id of
             Some (VObjectId oid) \<Rightarrow>
               let h2 = setitem h1 d ''id'' (VStr (str_oid oid));
                   h3 = delitem h2 d ''_id''
               in (h3, d)
           | _ \<Rightarrow> (h1, d))"

section \<open>Native ids from text\<close>

text \<open>
  Modelled from the spec: \<^verbatim>\<open>ObjectId(text)\<close>, the constructor of the store driver's id
  type, is not part of \<^verbatim>\<open>main.py\<close>. The spec's \<^verbatim>\<open>parse_id\<close> accepts exactly the
  well-formed ids of a 24-hex-character scheme and fails on every other text (wrong length
  or a character that is no hexadecimal digit). \<open>None\<close> is the raised exception.
\<close>

definition hex_value :: "char \<Rightarrow> nat option" where
  "hex_value c =
     map_of
       [(CHR ''0'', 0), (CHR ''1'', 1), (CHR ''2'', 2), (CHR ''3'', 3), (CHR ''4'', 4),
        (CHR ''5'', 5), (CHR ''6'', 6), (CHR ''7'', 7), (CHR ''8'', 8), (CHR ''9'', 9),
        (CHR ''a'', 10), (CHR ''b'', 11), (CHR ''c'', 12), (CHR ''d'', 13), (CHR ''e'', 14),
        (CHR ''f'', 15),
        (CHR ''A'', 10), (CHR ''B'', 11), (CHR ''C'', 12), (CHR ''D'', 13), (CHR ''E'', 14),
        (CHR ''F'', 15)] c"

fun nat_of_hex :: "nat \<Rightarrow> string \<Rightarrow> nat option" where
  "nat_of_hex acc [] = Some acc"
| "nat_of_hex acc (c # cs) =
     (case hex_value c of
        None \<Rightarrow> None
      | Some v \<Rightarrow> nat_of_hex (16 * acc + v) cs)"

definition parse_id :: "string \<Rightarrow> objectid option" where
  "parse_id text =
     (if length text = 24 then map_option ObjectId (nat_of_hex 0 text) else None)"

section \<open>Schemas: \<^verbatim>\<open>ProductIn\<close>\<close>

text \<open>
  \<^verbatim>\<open>
  class ProductIn(BaseModel):
      title: str = Field(..., description="Product title")
      description: Optional[str] = Field(None, description="Product description")
      price: float = Field(..., ge=0, description="Price in USD")
      category: str = Field("perfume", description="Product category")
      in_stock: bool = Field(True, description="Whether product is in stock")
      image: Optional[str] = Field(None, description="Main image URL")
      rating: Optional[float] = Field(4.5, ge=0, le=5)
      notes: Optional[List[str]] = Field(default_factory=list, description="Fragrance notes")
  \<close>
  A request body is read field by field. Each key is absent (\<open>None\<close>) or carries a value
  of the field's declared type; a field declared \<^verbatim>\<open>Optional[...]\<close> may also carry
  \<^verbatim>\<open>null\<close> (\<open>Some None\<close>). Bodies with a value of another type, and the library's
  coercions between types, are outside this model; keys that are no field of the schema
  are ignored by the library and have no place in the record. Numbers are reals: the
  comparisons \<^verbatim>\<open>ge=0\<close> and \<^verbatim>\<open>le=5\<close> are those of the reals, and NaN and the infinities
  are not represented.
\<close>

record payload =
  p_title :: "string option"
  p_description :: "string option option"
  p_price :: "real option"
  p_category :: "string option"
  p_in_stock :: "bool option"
  p_image :: "string option option"
  p_rating :: "real option option"
  p_notes :: "string list option option"

text \<open>The validated model. Two fields are renamed, their names being taken in Isabelle:
  \<^verbatim>\<open>image\<close> is \<open>image_url\<close> and \<^verbatim>\<open>notes\<close> is \<open>notes_list\<close>.\<close>

record product_in =
  title :: string
  description :: "string option"
  price :: real
  category :: string
  in_stock :: bool
  image_url :: "string option"
  rating :: "real option"
  notes_list :: "string list option"

text \<open>
  A validation error is the list of the library's error entries, one per offending field,
  in field order: the field's name and the error type.
\<close>

type_synonym verror = "string \<times> string"

text \<open>\<^verbatim>\<open>Field(...)\<close>: the field is required; no further constraint.\<close>

definition validate_title :: "payload \<Rightarrow> verror list + string" where
  "validate_title p =
     (case p_title p of
        None \<Rightarrow> Inl [(''title'', ''missing'')]
      | Some t \<Rightarrow> Inr t)"

text \<open>\<^verbatim>\<open>Field(..., ge=0)\<close>: required, and at least zero.\<close>

definition validate_price :: "payload \<Rightarrow> verror list + real" where
  "validate_price p =
     (case p_price p of
        None \<Rightarrow> Inl [(''price'', ''missing'')]
      | Some x \<Rightarrow> if x \<ge> 0 then Inr x else Inl [(''price'', ''greater_than_equal'')])"

text \<open>
  \<^verbatim>\<open>Optional[float] = Field(4.5, ge=0, le=5)\<close>: the default is taken as it is, \<^verbatim>\<open>null\<close>
  passes, and a number is checked against both bounds.
\<close>

definition validate_rating :: "payload \<Rightarrow> verror list + real option" where
  "validate_rating p =
     (case p_rating p of
        None \<Rightarrow> Inr (Some 4.5)
      | Some None \<Rightarrow> Inr None
      | Some (Some r) \<Rightarrow>
          if \<not> r \<ge> 0 then Inl [(''rating'', ''greater_than_equal'')]
          else if \<not> r \<le> 5 then Inl [(''rating'', ''less_than_equal'')]
          else Inr (Some r))"

fun errors_of :: "verror list + 'a \<Rightarrow> verror list" where
  "errors_of (Inl es) = es"
| "errors_of (Inr _) = []"

definition default_to :: "'a \<Rightarrow> 'a option \<Rightarrow> 'a" where
  "default_to d x = (case x of None \<Rightarrow> d | Some v \<Rightarrow> v)"

text \<open>
  \<^verbatim>\<open>validate_create\<close>: the validation of a \<^verbatim>\<open>POST /products\<close> body against
  \<^verbatim>\<open>ProductIn\<close>. Every field is validated, the errors of all fields are collected, and
  the model is built when there is none.
\<close>

definition validate_create :: "payload \<Rightarrow> verror list + product_in" where
  "validate_create p =
     (case (validate_title p, validate_price p, validate_rating p) of
        (Inr t, Inr x, Inr r) \<Rightarrow>
          Inr \<lparr> title = t,
                description = default_to None (p_description p),
                price = x,
                category = default_to ''perfume'' (p_category p),
                in_stock = default_to True (p_in_stock p),
                image_url = default_to None (p_image p),
                rating = r,
                notes_list = default_to (Some []) (p_notes p) \<rparr>
      | (a, b, c) \<Rightarrow> Inl (errors_of a @ errors_of b @ errors_of c))"

text \<open>\<^verbatim>\<open>product.model_dump()\<close>: the model as a dictionary, fields in declaration order.\<close>

definition opt_val :: "('a \<Rightarrow> pyval) \<Rightarrow> 'a option \<Rightarrow> pyval" where
  "opt_val f x = (case x of None \<Rightarrow> VNone | Some v \<Rightarrow> f v)"

definition model_dump :: "product_in \<Rightarrow> doc" where
  "model_dump m =
     [(''title'', VStr (title m)),
      (''description'', opt_val VStr (description m)),
      (''price'', VFloat (price m)),
      (''category'', VStr (category m)),
      (''in_stock'', VBool (in_stock m)),
      (''image'', opt_val VStr (image_url m)),
      (''rating'', opt_val VFloat (rating m)),
      (''notes'', opt_val (\<lambda>ns. VList (map VStr ns)) (notes_list m))]"

section \<open>The document store\<close>

text \<open>
  Modelled from the spec: the document store and its driver are an external collaborator
  and are not part of \<^verbatim>\<open>main.py\<close>. The spec gives the store a connection handle that is
  absent when the store is unavailable, and per-collection operations: insert-one
  (returns the new native id), find-one-by-id, find-many (filter, limit), count and
  list-collection-names. A store holds its collections by name, each a list of documents
  in insertion order, and the counter its next native id is made from. A driver call on a
  broken connection raises: \<open>fault\<close> holds the exception's text then, and the call is
  \<open>Inl\<close> of it. The documents \<^verbatim>\<open>main.py\<close> hands to insert-one carry no \<^verbatim>\<open>_id\<close>:
  the store assigns the next native id and keeps it as the document's first field.
\<close>

record store =
  colls :: "(string \<times> doc list) list"
  next_id :: nat
  fault :: "string option"

text \<open>The global \<^verbatim>\<open>db\<close> of \<^verbatim>\<open>database.py\<close>: the handle, \<open>None\<close> when there is none.\<close>

type_synonym db = "store option"

definition collection :: "store \<Rightarrow> string \<Rightarrow> doc list" where
  "collection st name = (case map_of (colls st) name of None \<Rightarrow> [] | Some ds \<Rightarrow> ds)"

definition count_documents :: "store \<Rightarrow> string \<Rightarrow> string + int" where
  "count_documents st name =
     (case fault st of
        Some e \<Rightarrow> Inl e
      | None \<Rightarrow> Inr (int (length (collection st name))))"

definition find_one :: "store \<Rightarrow> string \<Rightarrow> objectid \<Rightarrow> string + doc option" where
  "find_one st name oid =
     (case fault st of
        Some e \<Rightarrow> Inl e
      | None \<Rightarrow>
          Inr (find (\<lambda>d. map_of d ''_id'' = Some (VObjectId oid)) (collection st name)))"

definition insert_one :: "store \<Rightarrow> string \<Rightarrow> doc \<Rightarrow> string + store \<times> objectid" where
  "insert_one st name d =
     (case fault st of
        Some e \<Rightarrow> Inl e
      | None \<Rightarrow>
          let oid = ObjectId (next_id st);
              stored = (''_id'', VObjectId oid) # AList.delete ''_id'' d
          in Inr (st \<lparr> colls := AList.update name (collection st name @ [stored]) (colls st),
                       next_id := Suc (next_id st) \<rparr>,
                  oid))"

definition list_collection_names :: "store \<Rightarrow> string + string list" where
  "list_collection_names st =
     (case fault st of
        Some e \<Rightarrow> Inl e
      | None \<Rightarrow> Inr (map fst (colls st)))"

text \<open>
  Modelled from the spec: \<^verbatim>\<open>create_document\<close> of \<^verbatim>\<open>database.py\<close>, a module of the
  repository whose source is not at hand (\<^verbatim>\<open>main.py\<close> imports \<^verbatim>\<open>db\<close>,
  \<^verbatim>\<open>create_document\<close> and \<^verbatim>\<open>get_documents\<close> from it). The spec's \<^verbatim>\<open>create\<close>
  inserts one record and returns its newly assigned
  id, which \<^verbatim>\<open>POST /products\<close> answers as an id string.
\<close>

definition create_document :: "store \<Rightarrow> string \<Rightarrow> doc \<Rightarrow> string + store \<times> string" where
  "create_document st name data =
     (case insert_one st name data of
        Inl e \<Rightarrow> Inl e
      | Inr (st', oid) \<Rightarrow> Inr (st', str_oid oid))"

text \<open>
  The source of \<^verbatim>\<open>get_documents\<close> of \<^verbatim>\<open>database.py\<close> is not at hand either. The handler
  \<^verbatim>\<open>list_products\<close> below takes it as a parameter of this type: the store, the
  collection's name, the filter dictionary and the limit, giving the documents found or
  the exception raised.
\<close>

type_synonym get_documents_fn = "store \<Rightarrow> string \<Rightarrow> doc \<Rightarrow> int \<Rightarrow> string + doc list"

text \<open>
  Modelled from the spec: one \<^verbatim>\<open>get_documents\<close>, for running \<^verbatim>\<open>list_products\<close> on
  concrete stores. The spec's find-many takes a filter and a limit; an empty filter
  selects every record, and the filter \<^verbatim>\<open>list_products\<close> builds is a case-insensitive
  substring match on \<^verbatim>\<open>title\<close>. The spec fixes what a limit means only for limits of at
  least 1: at most that many records, in the store's natural order. Limits below 1 give
  no record here; nothing proved below depends on it.
\<close>

definition lower_char :: "char \<Rightarrow> char" where
  "lower_char c =
     (let n = (of_char c :: nat)
      in if 65 \<le> n \<and> n \<le> 90 then char_of (n + 32) else c)"

fun is_substring :: "string \<Rightarrow> string \<Rightarrow> bool" where
  "is_substring pat [] = (pat = [])"
| "is_substring pat (c # cs) = (take (length pat) (c # cs) = pat \<or> is_substring pat cs)"

definition title_matches :: "pyval \<Rightarrow> doc \<Rightarrow> bool" where
  "title_matches cond d =
     (case (cond, map_of d ''title'') of
        (VDict c, Some (VStr t)) \<Rightarrow>
          (case map_of c ''$regex'' of
             Some (VStr pat) \<Rightarrow> is_substring (map lower_char pat) (map lower_char t)
           | _ \<Rightarrow> False)
      | _ \<Rightarrow> False)"

definition doc_matches :: "doc \<Rightarrow> doc \<Rightarrow> bool" where
  "doc_matches filt d =
     list_all (\<lambda>(k, cond). if k = ''title'' then title_matches cond d
                            else map_of d k = Some cond) filt"

definition get_documents :: get_documents_fn where
  "get_documents st name filt limit =
     (case fault st of
        Some e \<Rightarrow> Inl e
      | None \<Rightarrow> Inr (take (nat limit) (filter (doc_matches filt) (collection st name))))"

section \<open>Routes\<close>

text \<open>
  A handler either returns its value or raises. \<open>HTTPException status detail\<close> is the
  exception the handlers raise themselves; \<open>Unhandled text\<close> is any other exception
  leaving a handler (a driver call that raised), which the framework answers with an
  internal server error. The values below are what the Python functions return, before
  the framework applies a route's \<^verbatim>\<open>response_model\<close>.
\<close>

datatype http_error = HTTPException int string | Unhandled string

definition db_not_available :: http_error where
  "db_not_available = HTTPException 500 ''Database not available''"

subsection \<open>\<^verbatim>\<open>GET /test\<close>\<close>

text \<open>
  The three pictographs of the status texts, as the bytes of their UTF-8 encoding:
  U+2705, U+274C, and U+26A0 followed by U+FE0F.
\<close>

definition check_mark :: string where
  "check_mark = [CHR 0xE2, CHR 0x9C, CHR 0x85]"

definition cross_mark :: string where
  "cross_mark = [CHR 0xE2, CHR 0x9D, CHR 0x8C]"

definition warning_sign :: string where
  "warning_sign = [CHR 0xE2, CHR 0x9A, CHR 0xA0, CHR 0xEF, CHR 0xB8, CHR 0x8F]"

text \<open>
  \<^verbatim>\<open>os.getenv(name)\<close> reads the process environment, an association list here. A value
  is truthy when it is present and not empty.
\<close>

type_synonym environ = "(string \<times> string) list"

definition getenv :: "environ \<Rightarrow> string \<Rightarrow> string option" where
  "getenv env name = map_of env name"

definition truthy_str :: "string option \<Rightarrow> bool" where
  "truthy_str x = (case x of None \<Rightarrow> False | Some s \<Rightarrow> s \<noteq> [])"

text \<open>
  \<^verbatim>\<open>
  def test_database():
      response = {
          "backend": "<U+2705> Running",
          "database": "<U+274C> Not Available",
          "database_url": None,
          "database_name": None,
          "connection_status": "Not Connected",
          "collections": []
      }
      try:
          if db is not None:
              response["database"] = "<U+2705> Available"
              response["database_url"] = "<U+2705> Set" if os.getenv("DATABASE_URL") else "<U+274C> Not Set"
              response["database_name"] = os.getenv("DATABASE_NAME") or "<U+274C> Not Set"
              try:
                  collections = db.list_collection_names()
                  response["collections"] = collections[:10]
                  response["database"] = "<U+2705> Connected & Working"
                  response["connection_status"] = "Connected"
              except Exception as e:
                  response["database"] = f"<U+26A0><U+FE0F> Connected but Error: {str(e)[:80]}"
          else:
              response["database"] = "<U+26A0><U+FE0F> Available but not initialized"
      except Exception as e:
          response["database"] = f"<U+274C> Error: {str(e)[:80]}"
      return response
  \<close>
  The function has no \<^verbatim>\<open>raise\<close> and returns the dictionary on every path: its model
  returns a dictionary, not a sum. The only call that can raise inside the outer
  \<^verbatim>\<open>try\<close> is the driver call, which the inner handler catches, so the outer handler has
  no branch here. Exception texts are taken to be ASCII, so that the first 80 characters
  are the first 80 bytes.
\<close>

definition initial_response :: doc where
  "initial_response =
     [(''backend'', VStr (check_mark @ '' Running'')),
      (''database'', VStr (cross_mark @ '' Not Available'')),
      (''database_url'', VNone),
      (''database_name'', VNone),
      (''connection_status'', VStr ''Not Connected''),
      (''collections'', VList [])]"

definition test_database :: "environ \<Rightarrow> db \<Rightarrow> doc" where
  "test_database env db =
     (let response = initial_response in
      case db of
        Some st \<Rightarrow>
          let response = AList.update ''database'' (VStr (check_mark @ '' Available'')) response;
              response = AList.update ''database_url''
                           (VStr (if truthy_str (getenv env ''DATABASE_URL'')
                                  then check_mark @ '' Set''
                                  else cross_mark @ '' Not Set'')) response;
              response = AList.update ''database_name''
                           (VStr (case getenv env ''DATABASE_NAME'' of
                                    Some s \<Rightarrow> if s \<noteq> [] then s else cross_mark @ '' Not Set''
                                  | None \<Rightarrow> cross_mark @ '' Not Set'')) response
          in (case list_collection_names st of
                Inr collections \<Rightarrow>
                  let response = AList.update ''collections''
                                   (VList (map VStr (take 10 collections))) response;
                      response = AList.update ''database''
                                   (VStr (check_mark @ '' Connected & Working'')) response;
                      response = AList.update ''connection_status'' (VStr ''Connected'') response
                  in response
              | Inl e \<Rightarrow>
                  AList.update ''database''
                    (VStr (warning_sign @ '' Connected but Error: '' @ take 80 e)) response)
      | None \<Rightarrow>
          AList.update ''database''
            (VStr (warning_sign @ '' Available but not initialized'')) response)"

subsection \<open>\<^verbatim>\<open>GET /products\<close>\<close>

text \<open>
  \<^verbatim>\<open>
  def list_products(limit: int = 50, q: Optional[str] = None):
      if db is None:
          raise HTTPException(status_code=500, detail="Database not available")
      filt = {}
      if q:
          # Simple text search on title using case-insensitive regex
          filt = {"title": {"$regex": q, "$options": "i"}}
      docs = get_documents("product", filt, min(limit, 100))
      return [serialize_doc(d) for d in docs]
  \<close>
  \<open>build_filter\<close> is the filter dictionary after the \<^verbatim>\<open>if q:\<close>, and \<open>effective_limit\<close>
  is the third argument of the call, \<^verbatim>\<open>min(limit, 100)\<close>. The handler takes both
  parameters as given; the framework supplies \<^verbatim>\<open>limit = 50\<close> and \<^verbatim>\<open>q = None\<close> for a
  request without them.
\<close>

definition build_filter :: "string option \<Rightarrow> doc" where
  "build_filter q =
     (let filt = [] in
      if truthy_str q
      then [(''title'', VDict [(''$regex'', VStr (default_to [] q)), (''$options'', VStr ''i'')])]
      else filt)"

definition effective_limit :: "int \<Rightarrow> int" where
  "effective_limit limit = min limit 100"

definition list_products ::
  "get_documents_fn \<Rightarrow> db \<Rightarrow> int \<Rightarrow> string option \<Rightarrow> http_error + doc list" where
  "list_products gd db limit q =
     (case db of
        None \<Rightarrow> Inl db_not_available
      | Some st \<Rightarrow>
          let filt = build_filter q in
          (case gd st ''product'' filt (effective_limit limit) of
             Inl e \<Rightarrow> Inl (Unhandled e)
           | Inr docs \<Rightarrow> Inr (map serialize_doc docs)))"

subsection \<open>\<^verbatim>\<open>POST /products\<close>\<close>

text \<open>
  \<^verbatim>\<open>
  def create_product(product: ProductIn):
      if db is None:
          raise HTTPException(status_code=500, detail="Database not available")
      new_id = create_document("product", product.model_dump())
      return new_id
  \<close>
  A handler that writes returns the store's handle after the call with its result.
\<close>

definition create_product :: "db \<Rightarrow> product_in \<Rightarrow> db \<times> (http_error + string)" where
  "create_product db product =
     (case db of
        None \<Rightarrow> (db, Inl db_not_available)
      | Some st \<Rightarrow>
          (case create_document st ''product'' (model_dump product) of
             Inl e \<Rightarrow> (db, Inl (Unhandled e))
           | Inr (st', new_id) \<Rightarrow> (Some st', Inr new_id)))"

subsection \<open>\<^verbatim>\<open>GET /products/{product_id}\<close>\<close>

text \<open>
  \<^verbatim>\<open>
  def get_product(product_id: str):
      if db is None:
          raise HTTPException(status_code=500, detail="Database not available")
      try:
          oid = ObjectId(product_id)
      except Exception:
          raise HTTPException(status_code=400, detail="Invalid product id")
      doc = db["product"].find_one({"_id": oid})
      if not doc:
          raise HTTPException(status_code=404, detail="Product not found")
      return serialize_doc(doc)
  \<close>
  \<^verbatim>\<open>not doc\<close> holds of \<^verbatim>\<open>None\<close> and of the empty dictionary.
\<close>

definition get_product :: "db \<Rightarrow> string \<Rightarrow> http_error + doc" where
  "get_product db product_id =
     (case db of
        None \<Rightarrow> Inl db_not_available
      | Some st \<Rightarrow>
          (case parse_id product_id of
             None \<Rightarrow> Inl (HTTPException 400 ''Invalid product id'')
           | Some oid \<Rightarrow>
               (case find_one st ''product'' oid of
                  Inl e \<Rightarrow> Inl (Unhandled e)
                | Inr doc \<Rightarrow>
                    (case doc of
                       None \<Rightarrow> Inl (HTTPException 404 ''Product not found'')
                     | Some d \<Rightarrow>
                         if d = [] then Inl (HTTPException 404 ''Product not found'')
                         else Inr (serialize_doc d)))))"

subsection \<open>\<^verbatim>\<open>POST /seed\<close>\<close>

definition samples :: "doc list" where
  "samples =
     [[(''title'', VStr ''Citrus Bloom Eau de Parfum''),
       (''description'',
          VStr ''A bright, sparkling blend of bergamot, neroli, and white musk.''),
       (''price'', VFloat 68.0),
       (''category'', VStr ''perfume''),
       (''in_stock'', VBool True),
       (''image'',
          VStr ''https://images.unsplash.com/photo-1541643600914-78b084683601?q=80&w=1200&auto=format&fit=crop''),
       (''rating'', VFloat 4.7),
       (''notes'', VList [VStr ''bergamot'', VStr ''neroli'', VStr ''white musk''])],
      [(''title'', VStr ''Amber Leaf Elixir''),
       (''description'', VStr ''Warm amber wrapped in vanilla and a hint of tobacco leaf.''),
       (''price'', VFloat 84.0),
       (''category'', VStr ''perfume''),
       (''in_stock'', VBool True),
       (''image'',
          VStr ''https://images.unsplash.com/photo-1595433707802-6b2626ef1c86?q=80&w=1200&auto=format&fit=crop''),
       (''rating'', VFloat 4.6),
       (''notes'', VList [VStr ''amber'', VStr ''vanilla'', VStr ''tobacco''])],
      [(''title'', VStr ''Verdant Whisper''),
       (''description'', VStr ''Green tea freshness meets jasmine petals and cedarwood.''),
       (''price'', VFloat 72.0),
       (''category'', VStr ''perfume''),
       (''in_stock'', VBool True),
       (''image'',
          VStr ''https://images.unsplash.com/photo-1563170423-18f482d82cc8?q=80&w=1200&auto=format&fit=crop''),
       (''rating'', VFloat 4.5),
       (''notes'', VList [VStr ''green tea'', VStr ''jasmine'', VStr ''cedarwood''])]]"

text \<open>
  \<^verbatim>\<open>for s in samples: create_document("product", s)\<close>. An exception ends the loop and
  leaves the store as the inserts before it made it: \<open>Inl\<close> carries that store with the
  exception's text.
\<close>

fun create_all :: "store \<Rightarrow> doc list \<Rightarrow> store \<times> string + store" where
  "create_all st [] = Inr st"
| "create_all st (s # ss) =
     (case create_document st ''product'' s of
        Inl e \<Rightarrow> Inl (st, e)
      | Inr (st', _) \<Rightarrow> create_all st' ss)"

text \<open>
  What a run of inserts adds to a collection: the documents given, each with the native id
  the store assigned as its first field, the ids counted up from \<open>n\<close>.
\<close>

definition with_ids :: "nat \<Rightarrow> doc list \<Rightarrow> doc list" where
  "with_ids n ss =
     map (\<lambda>(i, s). (''_id'', VObjectId (ObjectId i)) # AList.delete ''_id'' s)
         (zip [n ..< n + length ss] ss)"

text \<open>
  \<^verbatim>\<open>
  def seed_products():
      if db is None:
          raise HTTPException(status_code=500, detail="Database not available")
      existing = db["product"].count_documents({})
      if existing > 0:
          return {"status": "ok", "message": "Products already exist", "count": existing}
      samples = [ ... ]
      for s in samples:
          create_document("product", s)
      count = db["product"].count_documents({})
      return {"status": "ok", "inserted": len(samples), "count": count}
  \<close>
\<close>

definition seed_products :: "db \<Rightarrow> db \<times> (http_error + doc)" where
  "seed_products db =
     (case db of
        None \<Rightarrow> (db, Inl db_not_available)
      | Some st \<Rightarrow>
          (case count_documents st ''product'' of
             Inl e \<Rightarrow> (db, Inl (Unhandled e))
           | Inr existing \<Rightarrow>
               if existing > 0
               then (db, Inr [(''status'', VStr ''ok''),
                              (''message'', VStr ''Products already exist''),
                              (''count'', VInt existing)])
               else
                 (case create_all st samples of
                    Inl (st', e) \<Rightarrow> (Some st', Inl (Unhandled e))
                  | Inr st' \<Rightarrow>
                      (case count_documents st' ''product'' of
                         Inl e \<Rightarrow> (Some st', Inl (Unhandled e))
                       | Inr count \<Rightarrow>
                           (Some st', Inr [(''status'', VStr ''ok''),
                                           (''inserted'', VInt (int (length samples))),
                                           (''count'', VInt count)])))))"

section \<open>Properties of \<^verbatim>\<open>serialize_doc\<close>\<close>

lemma serialize_doc_native:
  assumes "map_of doc ''_id'' = Some (VObjectId oid)"
  shows "serialize_doc doc =
           AList.delete ''_id'' (AList.update ''id'' (VStr (str_oid oid)) doc)"
proof -
  from assms have "doc \<noteq> []" by auto
  with assms show ?thesis by (simp add: serialize_doc_def)
qed

lemma serialize_doc_other:
  assumes "\<And>oid. map_of doc ''_id'' \<noteq> Some (VObjectId oid)"
  shows "serialize_doc doc = doc"
  using assms by (simp add: serialize_doc_def split: option.splits pyval.splits)

lemma serialize_doc_no_native:
  "map_of (serialize_doc doc) ''_id'' \<noteq> Some (VObjectId oid)"
proof (cases "\<exists>x. map_of doc ''_id'' = Some (VObjectId x)")
  case True
  then obtain x where "map_of doc ''_id'' = Some (VObjectId x)" ..
  then show ?thesis by (simp add: serialize_doc_native AList.delete_conv')
next
  case False
  then have "serialize_doc doc = doc" by (intro serialize_doc_other) simp
  with False show ?thesis by simp
qed

lemma hex_of_nat_numeral:
  "hex_of_nat (numeral k) n =
     hex_of_nat (pred_numeral k) (n div 16) @ [hex_digits ! (n mod 16)]"
  by (simp add: numeral_eq_Suc [of k])

lemma hex_of_nat_1: "hex_of_nat 1 n = [hex_digits ! (n mod 16)]"
  by simp

lemma serialize_doc_heap_empty:
  "h ! doc = [] \<Longrightarrow> serialize_doc_heap h doc = (h, doc)"
  by (simp add: serialize_doc_heap_def)

lemma serialize_doc_heap_copy:
  assumes "h ! doc \<noteq> []"
  shows "serialize_doc_heap h doc = (h @ [serialize_doc (h ! doc)], length h)"
proof (cases "\<exists>oid. map_of (h ! doc) ''_id'' = Some (VObjectId oid)")
  case True
  then obtain oid where "map_of (h ! doc) ''_id'' = Some (VObjectId oid)" ..
  with assms show ?thesis
    by (simp add: serialize_doc_heap_def serialize_doc_def alloc_def setitem_def delitem_def)
next
  case False
  then have "serialize_doc (h ! doc) = h ! doc"
    by (intro serialize_doc_other) simp
  with False assms show ?thesis
    by (simp add: serialize_doc_heap_def alloc_def split: option.splits pyval.splits)
qed

text \<open>
  C4, as the code has it. For every store record that holds a native id (an
  \<^verbatim>\<open>ObjectId\<close>) under the reserved key \<^verbatim>\<open>_id\<close>, \<^verbatim>\<open>serialize_doc\<close> returns a record
  without the key \<^verbatim>\<open>_id\<close>, whose field \<^verbatim>\<open>id\<close> holds the id's string form
  \<^verbatim>\<open>str(_id)\<close>, every other field being as in the input; so \<^verbatim>\<open>_id\<close> and \<^verbatim>\<open>id\<close> do
  not occur together in it. Whatever the input, the output holds no native id under
  \<^verbatim>\<open>_id\<close>. A record with no native id under \<^verbatim>\<open>_id\<close> is returned as it is; and an
  output has the key \<^verbatim>\<open>_id\<close> only when it is such an input, returned unchanged.
\<close>

theorem serialize_doc_replaces_native_id:
  "(map_of doc ''_id'' = Some (VObjectId oid) \<longrightarrow>
      map_of (serialize_doc doc) ''_id'' = None
      \<and> ''_id'' \<notin> fst ` set (serialize_doc doc)
      \<and> map_of (serialize_doc doc) ''id'' = Some (VStr (str_oid oid))
      \<and> (\<forall>k. k \<noteq> ''_id'' \<and> k \<noteq> ''id'' \<longrightarrow> map_of (serialize_doc doc) k = map_of doc k))
   \<and> (\<forall>x. map_of (serialize_doc doc) ''_id'' \<noteq> Some (VObjectId x))
   \<and> ((\<forall>x. map_of doc ''_id'' \<noteq> Some (VObjectId x)) \<longrightarrow> serialize_doc doc = doc)
   \<and> (''_id'' \<in> fst ` set (serialize_doc doc) \<longrightarrow>
        serialize_doc doc = doc \<and> (\<forall>x. map_of doc ''_id'' \<noteq> Some (VObjectId x)))"
proof (intro conjI impI allI)
  fix x show "map_of (serialize_doc doc) ''_id'' \<noteq> Some (VObjectId x)"
    by (rule serialize_doc_no_native)
next
  assume "\<forall>x. map_of doc ''_id'' \<noteq> Some (VObjectId x)"
  then show "serialize_doc doc = doc" by (intro serialize_doc_other) simp
next
  assume k: "''_id'' \<in> fst ` set (serialize_doc doc)"
  have n: "map_of doc ''_id'' \<noteq> Some (VObjectId x)" for x
  proof
    assume "map_of doc ''_id'' = Some (VObjectId x)"
    then have "serialize_doc doc =
        AList.delete ''_id'' (AList.update ''id'' (VStr (str_oid x)) doc)"
      by (rule serialize_doc_native)
    with k show False by (simp add: AList.delete_notin_dom)
  qed
  then show "serialize_doc doc = doc" by (rule serialize_doc_other)
  fix x from n show "map_of doc ''_id'' \<noteq> Some (VObjectId x)" .
next
  assume a: "map_of doc ''_id'' = Some (VObjectId oid)"
  then have eq: "serialize_doc doc =
      AList.delete ''_id'' (AList.update ''id'' (VStr (str_oid oid)) doc)"
    by (rule serialize_doc_native)
  show "map_of (serialize_doc doc) ''_id'' = None"
    by (simp add: eq AList.delete_conv')
  show "''_id'' \<notin> fst ` set (serialize_doc doc)"
    unfolding eq by (rule AList.delete_notin_dom)
  show "map_of (serialize_doc doc) ''id'' = Some (VStr (str_oid oid))"
    by (simp add: eq AList.delete_conv' AList.update_conv')
  fix k assume "k \<noteq> ''_id'' \<and> k \<noteq> ''id''"
  then show "map_of (serialize_doc doc) k = map_of doc k"
    by (simp add: eq AList.delete_conv' AList.update_conv')
qed

theorem serialize_doc_replaces_native_id_witness:
  "map_of (serialize_doc [(''_id'', VObjectId (ObjectId 255)), (''title'', VStr ''X'')]) ''_id''
     = None
   \<and> map_of (serialize_doc [(''_id'', VObjectId (ObjectId 255)), (''title'', VStr ''X'')]) ''id''
       = Some (VStr ''0000000000000000000000ff'')
   \<and> serialize_doc [(''_id'', VStr ''abc''), (''title'', VStr ''X'')]
       = [(''_id'', VStr ''abc''), (''title'', VStr ''X'')]"
  using serialize_doc_replaces_native_id
          [of "[(''_id'', VObjectId (ObjectId 255)), (''title'', VStr ''X'')]" "ObjectId 255"]
        serialize_doc_replaces_native_id
          [of "[(''_id'', VStr ''abc''), (''title'', VStr ''X'')]" "ObjectId 0"]
  by (simp add: hex_of_nat_numeral hex_of_nat_1 hex_digits_def)

text \<open>
  C4, as the claim states it, fails: \<^verbatim>\<open>isinstance(_id, ObjectId)\<close> guards the
  reshaping, so the record \<^verbatim>\<open>{"_id": "abc", "id": "x"}\<close>, whose \<^verbatim>\<open>_id\<close> is a string,
  comes back with both \<^verbatim>\<open>_id\<close> and \<^verbatim>\<open>id\<close>.
\<close>

theorem serialize_doc_keeps_foreign_id:
  "serialize_doc [(''_id'', VStr ''abc''), (''id'', VStr ''x'')]
     = [(''_id'', VStr ''abc''), (''id'', VStr ''x'')]
   \<and> map_of (serialize_doc [(''_id'', VStr ''abc''), (''id'', VStr ''x'')]) ''_id''
       = Some (VStr ''abc'')
   \<and> map_of (serialize_doc [(''_id'', VStr ''abc''), (''id'', VStr ''x'')]) ''id''
       = Some (VStr ''x'')"
  by (simp add: serialize_doc_def)

text \<open>
  C5. \<^verbatim>\<open>serialize_doc\<close> is idempotent: applying it to its own result changes nothing.
  In particular a record with no native id under \<^verbatim>\<open>_id\<close> is returned as it is.
\<close>

theorem serialize_doc_idempotent:
  "serialize_doc (serialize_doc doc) = serialize_doc doc
   \<and> ((\<forall>oid. map_of doc ''_id'' \<noteq> Some (VObjectId oid)) \<longrightarrow> serialize_doc doc = doc)"
  by (simp add: serialize_doc_other serialize_doc_no_native)

theorem serialize_doc_idempotent_witness:
  "serialize_doc [(''id'', VStr ''0000000000000000000000ff''), (''title'', VStr ''X'')]
     = [(''id'', VStr ''0000000000000000000000ff''), (''title'', VStr ''X'')]"
  using serialize_doc_idempotent
          [of "[(''id'', VStr ''0000000000000000000000ff''), (''title'', VStr ''X'')]"]
  by simp

text \<open>
  C6. \<^verbatim>\<open>serialize_doc\<close> never mutates its argument. On the heap, for every valid
  reference \<open>doc\<close>: after the call every dictionary that was on the heap before holds
  exactly what it held, the argument's among them; the returned reference is valid and
  its dictionary holds the function's value; and unless the argument is empty (when the
  argument itself is returned) the returned reference is a fresh one, the copy, which is
  the only cell written to.
\<close>

theorem serialize_doc_heap_frame:
  "doc < length h \<Longrightarrow>
     (case serialize_doc_heap h doc of
        (h', r) \<Rightarrow>
          take (length h) h' = h
          \<and> (\<forall>a < length h. h' ! a = h ! a)
          \<and> r < length h'
          \<and> h' ! r = serialize_doc (h ! doc)
          \<and> (h ! doc \<noteq> [] \<longrightarrow> r = length h))"
proof (cases "h ! doc = []")
  case True
  assume "doc < length h"
  with True show ?thesis by (simp add: serialize_doc_heap_empty serialize_doc_def)
next
  case False
  then show ?thesis by (simp add: serialize_doc_heap_copy nth_append)
qed

theorem serialize_doc_heap_frame_witness:
  "serialize_doc_heap [[(''_id'', VObjectId (ObjectId 255)), (''title'', VStr ''X'')]] 0
     = ([[(''_id'', VObjectId (ObjectId 255)), (''title'', VStr ''X'')],
         [(''title'', VStr ''X''), (''id'', VStr ''0000000000000000000000ff'')]], 1)"
  using serialize_doc_heap_frame
          [of 0 "[[(''_id'', VObjectId (ObjectId 255)), (''title'', VStr ''X'')]]"]
  by (simp add: serialize_doc_heap_def serialize_doc_def alloc_def setitem_def delitem_def
        hex_of_nat_numeral hex_of_nat_1 hex_digits_def)

section \<open>Properties of the \<^verbatim>\<open>ProductIn\<close> validation\<close>

lemma validate_title_Inr: "validate_title p = Inr t \<longleftrightarrow> p_title p = Some t"
  by (simp add: validate_title_def split: option.splits)

lemma validate_price_Inr: "validate_price p = Inr x \<longleftrightarrow> p_price p = Some x \<and> 0 \<le> x"
  by (auto simp: validate_price_def split: option.splits)

lemma validate_rating_Inr:
  "validate_rating p = Inr r \<longleftrightarrow>
     (p_rating p = None \<and> r = Some 4.5)
     \<or> (p_rating p = Some None \<and> r = None)
     \<or> (\<exists>v. p_rating p = Some (Some v) \<and> r = Some v \<and> 0 \<le> v \<and> v \<le> 5)"
  by (auto simp: validate_rating_def split: option.splits)

lemma validate_create_Inr:
  "validate_create p = Inr m \<longleftrightarrow>
     (\<exists>t x r. validate_title p = Inr t \<and> validate_price p = Inr x \<and> validate_rating p = Inr r
        \<and> m = \<lparr> title = t,
                description = default_to None (p_description p),
                price = x,
                category = default_to ''perfume'' (p_category p),
                in_stock = default_to True (p_in_stock p),
                image_url = default_to None (p_image p),
                rating = r,
                notes_list = default_to (Some []) (p_notes p) \<rparr>)"
  by (auto simp: validate_create_def split: sum.splits)





text \<open>
  C3. Every valid body (\<^verbatim>\<open>title\<close> present, \<^verbatim>\<open>price\<close> present and not negative,
  \<^verbatim>\<open>rating\<close> absent, null or a number in [0, 5]) is accepted, and the model it gives
  has the default for every absent optional field (\<^verbatim>\<open>category\<close> "perfume",
  \<^verbatim>\<open>in_stock\<close> true, \<^verbatim>\<open>rating\<close> 4.5, \<^verbatim>\<open>notes\<close> the empty list, \<^verbatim>\<open>description\<close> and
  \<^verbatim>\<open>image\<close> none) and the caller's value for every supplied field. Conversely, whatever
  model the validation gives has exactly these fields.
\<close>

theorem validate_create_defaults:
  "(p_title p = Some t \<and> p_price p = Some x \<and> 0 \<le> x
      \<and> (\<forall>r. p_rating p = Some (Some r) \<longrightarrow> 0 \<le> r \<and> r \<le> 5)
    \<longrightarrow> validate_create p =
          Inr \<lparr> title = t,
                description = (case p_description p of None \<Rightarrow> None | Some d \<Rightarrow> d),
                price = x,
                category = (case p_category p of None \<Rightarrow> ''perfume'' | Some c \<Rightarrow> c),
                in_stock = (case p_in_stock p of None \<Rightarrow> True | Some b \<Rightarrow> b),
                image_url = (case p_image p of None \<Rightarrow> None | Some i \<Rightarrow> i),
                rating = (case p_rating p of None \<Rightarrow> Some 4.5 | Some r \<Rightarrow> r),
                notes_list = (case p_notes p of None \<Rightarrow> Some [] | Some ns \<Rightarrow> ns) \<rparr>)
   \<and> (validate_create p = Inr m \<longrightarrow>
         category m = (case p_category p of None \<Rightarrow> ''perfume'' | Some c \<Rightarrow> c)
         \<and> in_stock m = (case p_in_stock p of None \<Rightarrow> True | Some b \<Rightarrow> b)
         \<and> rating m = (case p_rating p of None \<Rightarrow> Some 4.5 | Some r \<Rightarrow> r)
         \<and> notes_list m = (case p_notes p of None \<Rightarrow> Some [] | Some ns \<Rightarrow> ns)
         \<and> p_title p = Some (title m)
         \<and> p_price p = Some (price m)
         \<and> description m = (case p_description p of None \<Rightarrow> None | Some d \<Rightarrow> d)
         \<and> image_url m = (case p_image p of None \<Rightarrow> None | Some i \<Rightarrow> i))"
proof (rule conjI; rule impI)
  assume v: "p_title p = Some t \<and> p_price p = Some x \<and> 0 \<le> x
      \<and> (\<forall>r. p_rating p = Some (Some r) \<longrightarrow> 0 \<le> r \<and> r \<le> 5)"
  then have t: "validate_title p = Inr t" and x: "validate_price p = Inr x"
    by (simp_all add: validate_title_Inr validate_price_Inr)
  from v have r: "validate_rating p = Inr (case p_rating p of None \<Rightarrow> Some 4.5 | Some r \<Rightarrow> r)"
    by (auto simp: validate_rating_def split: option.splits)
  show "validate_create p =
          Inr \<lparr> title = t,
                description = (case p_description p of None \<Rightarrow> None | Some d \<Rightarrow> d),
                price = x,
                category = (case p_category p of None \<Rightarrow> ''perfume'' | Some c \<Rightarrow> c),
                in_stock = (case p_in_stock p of None \<Rightarrow> True | Some b \<Rightarrow> b),
                image_url = (case p_image p of None \<Rightarrow> None | Some i \<Rightarrow> i),
                rating = (case p_rating p of None \<Rightarrow> Some 4.5 | Some r \<Rightarrow> r),
                notes_list = (case p_notes p of None \<Rightarrow> Some [] | Some ns \<Rightarrow> ns) \<rparr>"
    by (simp add: validate_create_def t x r default_to_def)
next
  assume "validate_create p = Inr m"
  then obtain t x r where t: "p_title p = Some t" and x: "p_price p = Some x"
    and r: "validate_rating p = Inr r"
    and m: "m = \<lparr> title = t,
                description = default_to None (p_description p),
                price = x,
                category = default_to ''perfume'' (p_category p),
                in_stock = default_to True (p_in_stock p),
                image_url = default_to None (p_image p),
                rating = r,
                notes_list = default_to (Some []) (p_notes p) \<rparr>"
    unfolding validate_create_Inr validate_title_Inr validate_price_Inr by blast
  from r have r': "r = (case p_rating p of None \<Rightarrow> Some 4.5 | Some r \<Rightarrow> r)"
    unfolding validate_rating_Inr by auto
  show "category m = (case p_category p of None \<Rightarrow> ''perfume'' | Some c \<Rightarrow> c)
         \<and> in_stock m = (case p_in_stock p of None \<Rightarrow> True | Some b \<Rightarrow> b)
         \<and> rating m = (case p_rating p of None \<Rightarrow> Some 4.5 | Some r \<Rightarrow> r)
         \<and> notes_list m = (case p_notes p of None \<Rightarrow> Some [] | Some ns \<Rightarrow> ns)
         \<and> p_title p = Some (title m)
         \<and> p_price p = Some (price m)
         \<and> description m = (case p_description p of None \<Rightarrow> None | Some d \<Rightarrow> d)
         \<and> image_url m = (case p_image p of None \<Rightarrow> None | Some i \<Rightarrow> i)"
    unfolding m using t x r' by (simp add: default_to_def)
qed

theorem validate_create_defaults_witness:
  "validate_create
      \<lparr>p_title = Some ''X'', p_description = None, p_price = Some 10, p_category = None,
       p_in_stock = None, p_image = None, p_rating = None, p_notes = None\<rparr>
    = Inr \<lparr>title = ''X'', description = None, price = 10, category = ''perfume'',
           in_stock = True, image_url = None, rating = Some 4.5, notes_list = Some []\<rparr>
   \<and> validate_create
      \<lparr>p_title = Some ''Y'', p_description = Some (Some ''d''), p_price = Some 0,
       p_category = Some ''candle'', p_in_stock = Some False, p_image = Some None,
       p_rating = Some (Some 5), p_notes = Some (Some [''oud''])\<rparr>
    = Inr \<lparr>title = ''Y'', description = Some ''d'', price = 0, category = ''candle'',
           in_stock = False, image_url = None, rating = Some 5, notes_list = Some [''oud'']\<rparr>"
  using validate_create_defaults [where p = "\<lparr>p_title = Some ''X'', p_description = None, p_price = Some 10,
                p_category = None, p_in_stock = None, p_image = None, p_rating = None,
                p_notes = None\<rparr>" and t = "''X''" and x = 10
              and m = "\<lparr>title = ''X'', description = None, price = 10, category = ''perfume'',
                in_stock = True, image_url = None, rating = Some 4.5, notes_list = Some []\<rparr>"]
        validate_create_defaults [where p = "\<lparr>p_title = Some ''Y'', p_description = Some (Some ''d''), p_price = Some 0,
                p_category = Some ''candle'', p_in_stock = Some False, p_image = Some None,
                p_rating = Some (Some 5), p_notes = Some (Some [''oud''])\<rparr>"
              and t = "''Y''" and x = 0
              and m = "\<lparr>title = ''Y'', description = Some ''d'', price = 0, category = ''candle'',
                in_stock = False, image_url = None, rating = Some 5, notes_list = Some [''oud'']\<rparr>"]
  by simp

section \<open>Properties of the routes\<close>

text \<open>
  C2, as the code has it. \<^verbatim>\<open>list_products\<close> passes \<^verbatim>\<open>min(limit, 100)\<close> to the store,
  whatever \<^verbatim>\<open>get_documents\<close> is: never more than 100 and never more than the caller
  asked for; at least 1 when the caller asked for at least 1, and 100 when the caller
  asked for more. With the store's find-many as the spec has it, a caller asking for at
  least 1 receives at most \<^verbatim>\<open>min(limit, 100)\<close> records. There is no lower clamp.
\<close>

theorem list_products_effective_limit:
  "list_products gd (Some st) limit q =
     (case gd st ''product'' (build_filter q) (min limit 100) of
        Inl e \<Rightarrow> Inl (Unhandled e)
      | Inr docs \<Rightarrow> Inr (map serialize_doc docs))
   \<and> effective_limit limit = min limit 100
   \<and> effective_limit limit \<le> 100
   \<and> effective_limit limit \<le> limit
   \<and> (1 \<le> limit \<longrightarrow> 1 \<le> effective_limit limit)
   \<and> (100 < limit \<longrightarrow> effective_limit limit = 100)
   \<and> (1 \<le> limit \<longrightarrow>
        (\<forall>docs. list_products get_documents (Some st) limit q = Inr docs
                  \<longrightarrow> int (length docs) \<le> min limit 100))"
proof (intro conjI impI allI)
  fix docs
  assume l: "1 \<le> limit" and r: "list_products get_documents (Some st) limit q = Inr docs"
  from r obtain ds
    where ds: "get_documents st ''product'' (build_filter q) (min limit 100) = Inr ds"
      and docs: "docs = map serialize_doc ds"
    by (auto simp: list_products_def effective_limit_def split: sum.splits)
  from ds have "length ds \<le> nat (min limit 100)"
    by (auto simp: get_documents_def split: option.splits)
  with l docs show "int (length docs) \<le> min limit 100"
    by (simp add: min_def split: if_splits)
qed (simp_all add: list_products_def effective_limit_def)

theorem list_products_effective_limit_witness:
  "effective_limit 250 = 100
   \<and> list_products get_documents
        (Some \<lparr>colls = [(''product'', [[(''title'', VStr ''X'')]])], next_id = 0, fault = None\<rparr>)
        250 None = Inr [[(''title'', VStr ''X'')]]
   \<and> int (length [[(''title'', VStr ''X'')]]) \<le> min 250 100"
  using list_products_effective_limit
          [of get_documents
              "\<lparr>colls = [(''product'', [[(''title'', VStr ''X'')]])], next_id = 0, fault = None\<rparr>"
              250 None]
  by (simp add: list_products_def effective_limit_def build_filter_def truthy_str_def
        get_documents_def collection_def doc_matches_def serialize_doc_def)

text \<open>
  C2, as the claim states it, fails: a caller asking for 0 has 0 passed to the store,
  which is not in [1, 100].
\<close>

theorem effective_limit_below_one:
  "\<not> (1 \<le> effective_limit 0 \<and> effective_limit 0 \<le> 100)"
  by (simp add: effective_limit_def)

lemma nat_of_hex_None_iff:
  "nat_of_hex acc s = None \<longleftrightarrow> (\<exists>c \<in> set s. hex_value c = None)"
  by (induction s arbitrary: acc) (auto split: option.splits)

lemma parse_id_None_iff:
  "parse_id s = None \<longleftrightarrow> length s \<noteq> 24 \<or> (\<exists>c \<in> set s. hex_value c = None)"
  by (simp add: parse_id_def nat_of_hex_None_iff)




text \<open>
  C9. With the store's handle absent, each catalog operation (list, create, get by id,
  seed) raises the HTTP exception "Database not available" before any call to the store:
  the result does not depend on \<^verbatim>\<open>get_documents\<close>, and the handle stays absent. The
  diagnostic \<^verbatim>\<open>/test\<close> does not raise: with the handle absent it returns its response,
  whose body reports the database as not initialized and the connection as "Not
  Connected", and under every handle it returns a response with all six fields.
\<close>

theorem store_unavailable:
  "list_products gd None limit q = Inl (HTTPException 500 ''Database not available'')
   \<and> create_product None product = (None, Inl (HTTPException 500 ''Database not available''))
   \<and> get_product None pid = Inl (HTTPException 500 ''Database not available'')
   \<and> seed_products None = (None, Inl (HTTPException 500 ''Database not available''))
   \<and> test_database env None =
       [(''backend'', VStr (check_mark @ '' Running'')),
        (''database'', VStr (warning_sign @ '' Available but not initialized'')),
        (''database_url'', VNone),
        (''database_name'', VNone),
        (''connection_status'', VStr ''Not Connected''),
        (''collections'', VList [])]
   \<and> map fst (test_database env db) =
       [''backend'', ''database'', ''database_url'', ''database_name'', ''connection_status'',
        ''collections'']"
proof (intro conjI)
  show "map fst (test_database env db) =
       [''backend'', ''database'', ''database_url'', ''database_name'', ''connection_status'',
        ''collections'']"
    by (cases db)
       (simp_all add: test_database_def initial_response_def Let_def split: sum.splits)
qed (simp_all add: list_products_def create_product_def get_product_def seed_products_def
        db_not_available_def test_database_def initial_response_def)

theorem store_unavailable_witness:
  "list_products get_documents None 50 (Some ''amber'')
     = Inl (HTTPException 500 ''Database not available'')
   \<and> get_product None ''abc'' = Inl (HTTPException 500 ''Database not available'')
   \<and> map_of (test_database [] None) ''connection_status'' = Some (VStr ''Not Connected'')"
  using store_unavailable [where gd = get_documents and limit = 50 and q = "Some ''amber''"
          and pid = "''abc''" and env = "[]" and db = None]
  by simp

lemma doc_matches_empty: "doc_matches [] d"
  by (simp add: doc_matches_def)

lemma build_filter_falsy: "build_filter (Some []) = []" "build_filter None = []"
  by (simp_all add: build_filter_def truthy_str_def)

text \<open>
  C10. In \<^verbatim>\<open>list_products\<close> an empty \<^verbatim>\<open>q\<close> is no filter: the filter built for the
  empty string is the empty dictionary, the one built for no \<^verbatim>\<open>q\<close>, and the operation
  gives what it gives without \<^verbatim>\<open>q\<close>, whatever \<^verbatim>\<open>get_documents\<close> is. With the store's
  find-many as the spec has it and a limit of at least 1, the records returned are the
  first \<^verbatim>\<open>min(limit, 100)\<close> of the whole collection, of every title.
\<close>

theorem list_products_empty_q:
  "build_filter (Some []) = []
   \<and> build_filter (Some []) = build_filter None
   \<and> list_products gd db limit (Some []) = list_products gd db limit None
   \<and> (fault st = None \<and> 1 \<le> limit \<longrightarrow>
        list_products get_documents (Some st) limit (Some [])
          = Inr (map serialize_doc (take (nat (min limit 100)) (collection st ''product''))))"
proof (intro conjI impI)
  show "list_products gd db limit (Some []) = list_products gd db limit None"
    by (cases db) (simp_all add: list_products_def build_filter_falsy)
next
  assume "fault st = None \<and> 1 \<le> limit"
  then show "list_products get_documents (Some st) limit (Some [])
          = Inr (map serialize_doc (take (nat (min limit 100)) (collection st ''product'')))"
    by (simp add: list_products_def build_filter_falsy get_documents_def
          effective_limit_def doc_matches_empty)
qed (simp_all add: build_filter_falsy)

theorem list_products_empty_q_witness:
  "list_products get_documents
     (Some \<lparr>colls = [(''product'', [[(''title'', VStr ''X'')], [(''title'', VStr ''Y'')]])],
            next_id = 0, fault = None\<rparr>) 50 (Some [])
     = Inr [[(''title'', VStr ''X'')], [(''title'', VStr ''Y'')]]"
  using list_products_empty_q
          [where st = "\<lparr>colls = [(''product'', [[(''title'', VStr ''X'')], [(''title'', VStr ''Y'')]])],
                next_id = 0, fault = None\<rparr>"
             and limit = 50 and gd = get_documents and db = None]
  by (simp add: collection_def serialize_doc_def)

lemma collection_insert:
  "collection (st\<lparr>colls := AList.update name ds (colls st), next_id := n\<rparr>) name' =
     (if name' = name then ds else collection st name')"
  by (simp add: collection_def AList.update_conv')

lemma create_document_ok:
  assumes "fault st = None"
  shows "\<exists>st'. create_document st ''product'' d = Inr (st', str_oid (ObjectId (next_id st)))
           \<and> fault st' = None
           \<and> next_id st' = Suc (next_id st)
           \<and> collection st' ''product''
               = collection st ''product''
                 @ [(''_id'', VObjectId (ObjectId (next_id st))) # AList.delete ''_id'' d]"
  using assms
  by (simp add: create_document_def insert_one_def Let_def collection_insert)

lemma with_ids_Cons:
  "with_ids n (s # ss) =
     ((''_id'', VObjectId (ObjectId n)) # AList.delete ''_id'' s) # with_ids (Suc n) ss"
proof -
  have "[n ..< n + length (s # ss)] = n # [Suc n ..< Suc n + length ss]"
    by (simp add: upt_conv_Cons del: upt_Suc)
  then show ?thesis by (simp add: with_ids_def del: upt_Suc)
qed

lemma with_ids_Nil: "with_ids n [] = []"
  by (simp add: with_ids_def)

lemma create_all_ok:
  "fault st = None \<Longrightarrow>
     \<exists>st'. create_all st ss = Inr st'
       \<and> fault st' = None
       \<and> next_id st' = next_id st + length ss
       \<and> collection st' ''product'' = collection st ''product'' @ with_ids (next_id st) ss"
proof (induction ss arbitrary: st)
  case Nil
  then show ?case by (simp add: with_ids_def)
next
  case (Cons s ss)
  from create_document_ok [OF Cons.prems, of s]
  obtain st1 where c: "create_document st ''product'' s = Inr (st1, str_oid (ObjectId (next_id st)))"
    and f: "fault st1 = None"
    and n: "next_id st1 = Suc (next_id st)"
    and col: "collection st1 ''product''
               = collection st ''product''
                 @ [(''_id'', VObjectId (ObjectId (next_id st))) # AList.delete ''_id'' s]"
    by blast
  from Cons.IH [OF f] obtain st' where r: "create_all st1 ss = Inr st'"
    and f': "fault st' = None"
    and n': "next_id st' = next_id st1 + length ss"
    and col': "collection st' ''product'' = collection st1 ''product'' @ with_ids (next_id st1) ss"
    by blast
  have "create_all st (s # ss) = Inr st'" using c r by simp
  moreover have "next_id st' = next_id st + length (s # ss)" using n n' by simp
  moreover have "collection st' ''product''
      = collection st ''product'' @ with_ids (next_id st) (s # ss)"
    using col col' n by (simp add: with_ids_Cons)
  ultimately show ?case using f' by blast
qed

lemma length_samples: "length samples = 3"
  by (simp add: samples_def)

lemma with_ids_samples:
  "with_ids n samples =
     [(''_id'', VObjectId (ObjectId n)) # samples ! 0,
      (''_id'', VObjectId (ObjectId (Suc n))) # samples ! 1,
      (''_id'', VObjectId (ObjectId (Suc (Suc n)))) # samples ! 2]"
  by (simp add: samples_def with_ids_Cons with_ids_Nil)

text \<open>
  C8. On a working store, \<^verbatim>\<open>seed_products\<close> on a collection that holds at least one
  record inserts nothing (the store is returned as it was) and reports the existing
  count; on an empty collection it inserts every sample, in order and each under a fresh
  native id, and reports \<^verbatim>\<open>inserted\<close> and \<^verbatim>\<open>count\<close> both equal to the number of
  samples, which is 3.
\<close>

theorem seed_products_seeds_once:
  "fault st = None \<Longrightarrow>
     (collection st ''product'' \<noteq> [] \<longrightarrow>
        seed_products (Some st)
          = (Some st, Inr [(''status'', VStr ''ok''),
                           (''message'', VStr ''Products already exist''),
                           (''count'', VInt (int (length (collection st ''product''))))]))
     \<and> (collection st ''product'' = [] \<longrightarrow>
        (\<exists>st'. seed_products (Some st)
                 = (Some st', Inr [(''status'', VStr ''ok''),
                                   (''inserted'', VInt (int (length samples))),
                                   (''count'', VInt (int (length samples)))])
              \<and> collection st' ''product''
                  = [(''_id'', VObjectId (ObjectId (next_id st))) # samples ! 0,
                     (''_id'', VObjectId (ObjectId (Suc (next_id st)))) # samples ! 1,
                     (''_id'', VObjectId (ObjectId (Suc (Suc (next_id st))))) # samples ! 2]
              \<and> map (AList.delete ''_id'') (collection st' ''product'') = samples
              \<and> length (collection st' ''product'') = length samples))
     \<and> length samples = 3"
proof (intro conjI impI)
  assume f: "fault st = None" and ne: "collection st ''product'' \<noteq> []"
  then show "seed_products (Some st)
          = (Some st, Inr [(''status'', VStr ''ok''),
                           (''message'', VStr ''Products already exist''),
                           (''count'', VInt (int (length (collection st ''product''))))])"
    by (simp add: seed_products_def count_documents_def)
next
  show "length samples = 3" by (rule length_samples)
next
  assume f: "fault st = None" and e: "collection st ''product'' = []"
  from create_all_ok [OF f, of samples] obtain st' where r: "create_all st samples = Inr st'"
    and f': "fault st' = None"
    and col: "collection st' ''product'' = collection st ''product'' @ with_ids (next_id st) samples"
    by blast
  from col e have col': "collection st' ''product''
      = [(''_id'', VObjectId (ObjectId (next_id st))) # samples ! 0,
         (''_id'', VObjectId (ObjectId (Suc (next_id st)))) # samples ! 1,
         (''_id'', VObjectId (ObjectId (Suc (Suc (next_id st))))) # samples ! 2]"
    by (simp add: with_ids_samples)
  have len: "length (collection st' ''product'') = length samples"
    unfolding col' by (simp add: length_samples)
  have del: "map (AList.delete ''_id'') (collection st' ''product'') = samples"
    unfolding col' by (simp add: samples_def)
  have "seed_products (Some st)
                 = (Some st', Inr [(''status'', VStr ''ok''),
                                   (''inserted'', VInt (int (length samples))),
                                   (''count'', VInt (int (length samples)))])"
    using f e r f' len by (simp add: seed_products_def count_documents_def)
  with col' del len
  show "\<exists>st'. seed_products (Some st)
                 = (Some st', Inr [(''status'', VStr ''ok''),
                                   (''inserted'', VInt (int (length samples))),
                                   (''count'', VInt (int (length samples)))])
              \<and> collection st' ''product''
                  = [(''_id'', VObjectId (ObjectId (next_id st))) # samples ! 0,
                     (''_id'', VObjectId (ObjectId (Suc (next_id st)))) # samples ! 1,
                     (''_id'', VObjectId (ObjectId (Suc (Suc (next_id st))))) # samples ! 2]
              \<and> map (AList.delete ''_id'') (collection st' ''product'') = samples
              \<and> length (collection st' ''product'') = length samples"
    by blast
qed

theorem seed_products_seeds_once_witness:
  "snd (seed_products (Some \<lparr>colls = [], next_id = 0, fault = None\<rparr>))
     = Inr [(''status'', VStr ''ok''), (''inserted'', VInt 3), (''count'', VInt 3)]
   \<and> seed_products
       (Some \<lparr>colls = [(''product'', [[(''_id'', VObjectId (ObjectId 0)), (''title'', VStr ''X'')]])],
              next_id = 1, fault = None\<rparr>)
     = (Some \<lparr>colls = [(''product'', [[(''_id'', VObjectId (ObjectId 0)), (''title'', VStr ''X'')]])],
              next_id = 1, fault = None\<rparr>,
        Inr [(''status'', VStr ''ok''), (''message'', VStr ''Products already exist''),
             (''count'', VInt 1)])"
  using seed_products_seeds_once [of "\<lparr>colls = [], next_id = 0, fault = None\<rparr>"]
        seed_products_seeds_once
          [of "\<lparr>colls = [(''product'', [[(''_id'', VObjectId (ObjectId 0)), (''title'', VStr ''X'')]])],
                next_id = 1, fault = None\<rparr>"]
  by (auto simp: collection_def)

end
